theory Spec2Isabelle
  imports Complex_Main
begin

section \<open>Data model\<close>

subsection \<open>Enumerations of the collaborating libraries\<close>

text \<open>
  The enumerations \<^verbatim>\<open>avr.States\<close>, \<^verbatim>\<open>ucapi.media_player.States\<close>,
  \<^verbatim>\<open>Attributes\<close>, \<^verbatim>\<open>Features\<close>, \<^verbatim>\<open>Commands\<close> and \<^verbatim>\<open>ucapi.StatusCodes\<close> are
  declared outside the two source files. Each one is a datatype here; its members carry a
  prefix (\<open>Avr_\<close>, \<open>St_\<close>, \<open>Attr_\<close>, \<open>Feat_\<close>, \<open>Cmd_\<close>) because the Python names repeat
  across the enumerations.
\<close>

text \<open>
  \<^verbatim>\<open>avr.States\<close>: nothing in the source files shows its base class, so a member is
  equal to itself only.
\<close>

datatype avr_States =
  Avr_ON | Avr_OFF | Avr_PAUSED | Avr_PLAYING | Avr_UNAVAILABLE | Avr_UNKNOWN

text \<open>
  \<^verbatim>\<open>ucapi.media_player.States\<close> is a string-valued enumeration: the source passes a
  member where it annotates \<^verbatim>\<open>str\<close> (\<^verbatim>\<open>_key_update_helper\<close>, line 235), and a member
  compares equal to the string that is its value (\<^verbatim>\<open>States.OFF == "OFF"\<close>). The value
  of a member is its name. The datatype has the six members the driver names; any other
  string, also the value of a member the driver does not name, is a \<open>PyStr\<close> below.
\<close>

datatype States =
  St_ON | St_OFF | St_PAUSED | St_PLAYING | St_UNAVAILABLE | St_UNKNOWN

fun States_value :: "States \<Rightarrow> string" where
  "States_value St_ON = ''ON''"
| "States_value St_OFF = ''OFF''"
| "States_value St_PAUSED = ''PAUSED''"
| "States_value St_PLAYING = ''PLAYING''"
| "States_value St_UNAVAILABLE = ''UNAVAILABLE''"
| "States_value St_UNKNOWN = ''UNKNOWN''"

text \<open>
  Dictionary keys of the attribute mappings. \<open>Attr_other s\<close> is any key that is none of
  the attributes the driver names.
\<close>

datatype Attributes =
  Attr_STATE | Attr_VOLUME | Attr_MUTED
  | Attr_MEDIA_IMAGE_URL | Attr_MEDIA_TITLE | Attr_MEDIA_ARTIST | Attr_MEDIA_ALBUM
  | Attr_MEDIA_TYPE | Attr_SOURCE | Attr_SOURCE_LIST
  | Attr_SOUND_MODE | Attr_SOUND_MODE_LIST
  | Attr_other string

datatype Features =
  Feat_ON_OFF | Feat_TOGGLE | Feat_VOLUME | Feat_VOLUME_UP_DOWN | Feat_MUTE_TOGGLE
  | Feat_MUTE | Feat_UNMUTE | Feat_PLAY_PAUSE | Feat_NEXT | Feat_PREVIOUS
  | Feat_MEDIA_TITLE | Feat_MEDIA_ARTIST | Feat_MEDIA_ALBUM | Feat_MEDIA_IMAGE_URL
  | Feat_MEDIA_TYPE | Feat_SELECT_SOURCE | Feat_DPAD | Feat_MENU | Feat_CONTEXT_MENU
  | Feat_INFO | Feat_SELECT_SOUND_MODE | Feat_STOP

text \<open>
  Command identifiers are strings in the source. The structured commands that
  \<^verbatim>\<open>DenonMediaPlayer.command\<close> matches by name are constructors; \<open>Cmd_other s\<close> is
  the string \<open>s\<close>, different from each of them.
\<close>

datatype Commands =
  Cmd_PLAY_PAUSE | Cmd_STOP | Cmd_NEXT | Cmd_PREVIOUS | Cmd_VOLUME | Cmd_VOLUME_UP
  | Cmd_VOLUME_DOWN | Cmd_MUTE_TOGGLE | Cmd_MUTE | Cmd_UNMUTE | Cmd_ON | Cmd_OFF
  | Cmd_TOGGLE | Cmd_SELECT_SOURCE | Cmd_SELECT_SOUND_MODE | Cmd_CURSOR_UP
  | Cmd_CURSOR_DOWN | Cmd_CURSOR_LEFT | Cmd_CURSOR_RIGHT | Cmd_CURSOR_ENTER | Cmd_BACK
  | Cmd_MENU | Cmd_CONTEXT_MENU | Cmd_INFO
  | Cmd_other string

datatype StatusCodes =
  OK | BAD_REQUEST | UNAUTHORIZED | NOT_FOUND | TIMEOUT | CONFLICT | SERVER_ERROR
  | NOT_IMPLEMENTED | SERVICE_UNAVAILABLE

subsection \<open>Python values and exceptions\<close>

text \<open>
  The values of the attribute dictionaries (\<^verbatim>\<open>dict[str, Any]\<close>): the fragment of
  Python values that the receiver reports and the entity records. A \<open>pyatom\<close> is a
  hashable scalar; a \<open>pyval\<close> is a scalar or a list of scalars (the source lists and
  sound-mode lists).
\<close>

datatype pyatom =
  PyNone
  | PyBool bool
  | PyInt int
  | PyStr string
  | PyAvrState avr_States
  | PyState States

datatype pyval = Atom pyatom | PyList "pyatom list"

datatype error = KeyError | AttributeError | TypeError

text \<open>
  Python's \<^verbatim>\<open>==\<close> on these values: \<^verbatim>\<open>bool\<close> is a subclass of \<^verbatim>\<open>int\<close>, so
  \<^verbatim>\<open>True == 1\<close> and \<^verbatim>\<open>False == 0\<close>; a member of the string-valued \<^verbatim>\<open>States\<close> is
  equal to the string that is its value, in either order; lists are equal elementwise;
  values of other different kinds are unequal.
\<close>

fun atom_eq :: "pyatom \<Rightarrow> pyatom \<Rightarrow> bool" where
  "atom_eq PyNone PyNone = True"
| "atom_eq (PyBool a) (PyBool b) = (a = b)"
| "atom_eq (PyBool a) (PyInt j) = ((if a then 1 else 0) = j)"
| "atom_eq (PyInt i) (PyBool b) = (i = (if b then 1 else 0))"
| "atom_eq (PyInt i) (PyInt j) = (i = j)"
| "atom_eq (PyStr s) (PyStr t) = (s = t)"
| "atom_eq (PyStr s) (PyState b) = (s = States_value b)"
| "atom_eq (PyState a) (PyStr t) = (States_value a = t)"
| "atom_eq (PyAvrState a) (PyAvrState b) = (a = b)"
| "atom_eq (PyState a) (PyState b) = (a = b)"
| "atom_eq _ _ = False"

fun py_eq :: "pyval \<Rightarrow> pyval \<Rightarrow> bool" where
  "py_eq (Atom a) (Atom b) = atom_eq a b"
| "py_eq (PyList xs) (PyList ys) = list_all2 atom_eq xs ys"
| "py_eq _ _ = False"

text \<open>Truth value of a Python value, as \<^verbatim>\<open>not v\<close> reads it.\<close>

fun atom_truthy :: "pyatom \<Rightarrow> bool" where
  "atom_truthy PyNone = False"
| "atom_truthy (PyBool b) = b"
| "atom_truthy (PyInt i) = (i \<noteq> 0)"
| "atom_truthy (PyStr s) = (s \<noteq> [])"
| "atom_truthy (PyAvrState a) = True"
| "atom_truthy (PyState a) = True"

fun py_truthy :: "pyval \<Rightarrow> bool" where
  "py_truthy (Atom a) = atom_truthy a"
| "py_truthy (PyList xs) = (xs \<noteq> [])"

subsection \<open>Configuration, receiver and entity\<close>

text \<open>
  \<^verbatim>\<open>config.AvrDevice\<close>: the fields of a device configuration that the two source
  files read (\<^verbatim>\<open>id\<close> and \<^verbatim>\<open>name\<close> are \<open>device_id\<close> and \<open>device_name\<close> here).
\<close>

record AvrDevice =
  device_id :: string
  device_name :: string
  address :: string
  support_sound_mode :: bool
  is_denon :: bool
  use_telnet :: bool

text \<open>
  The four tables of the module \<^verbatim>\<open>simplecommand\<close>, which is not among the source
  files: they are a parameter of the model.
\<close>

record simplecommand =
  ALL_COMMANDS :: "string list"
  ALL_COMMANDS_DENON :: "string list"
  ALL_COMMANDS_TELNET :: "string list"
  ALL_COMMANDS_TELNET_DENON :: "string list"

text \<open>Operations of the receiver connection \<^verbatim>\<open>avr.DenonDevice\<close> that the driver invokes.\<close>

datatype avr_call =
  Call_play_pause | Call_stop | Call_next | Call_previous
  | Call_set_volume_level pyval
  | Call_volume_up | Call_volume_down
  | Call_mute bool
  | Call_power_on | Call_power_off | Call_power_toggle
  | Call_select_source pyval
  | Call_select_sound_mode pyval
  | Call_cursor_up | Call_cursor_down | Call_cursor_left | Call_cursor_right
  | Call_cursor_enter | Call_back | Call_setup | Call_options | Call_info
  | Call_send_simple_command string
  | Call_connect | Call_disconnect

datatype avr_Events =
  Ev_CONNECTED | Ev_DISCONNECTED | Ev_ERROR | Ev_UPDATE | Ev_IP_ADDRESS_CHANGED

text \<open>
  The receiver connection is an external collaborator. The model keeps what the claims
  observe of it: the operations invoked on it, in order (\<open>calls\<close>), the events that
  still have a listener of the driver (\<open>listeners\<close>), and the status code each command
  operation answers with (\<open>result_of\<close>).
\<close>

record DenonDevice =
  receiver_id :: string
  result_of :: "avr_call \<Rightarrow> StatusCodes"
  calls :: "avr_call list"
  listeners :: "avr_Events list"

text \<open>
  \<^verbatim>\<open>DenonMediaPlayer\<close>: \<open>receiver\<close> is the field \<^verbatim>\<open>_receiver\<close>, which \<^verbatim>\<open>command\<close>
  tests against \<^verbatim>\<open>None\<close>.
\<close>

record DenonMediaPlayer =
  receiver :: "DenonDevice option"
  player_id :: string
  player_name :: string
  features :: "Features list"
  attributes :: "Attributes \<rightharpoonup> pyval"
  simple_commands :: "string list"

section \<open>media\_player.py\<close>

subsection \<open>State mapping\<close>

definition MEDIA_PLAYER_STATE_MAPPING :: "(pyatom \<times> States) list" where
  "MEDIA_PLAYER_STATE_MAPPING =
     [(PyAvrState Avr_ON, St_ON),
      (PyAvrState Avr_OFF, St_OFF),
      (PyAvrState Avr_PAUSED, St_PAUSED),
      (PyAvrState Avr_PLAYING, St_PLAYING),
      (PyAvrState Avr_UNAVAILABLE, St_UNAVAILABLE),
      (PyAvrState Avr_UNKNOWN, St_UNKNOWN)]"

text \<open>
  \<^verbatim>\<open>state_from_avr\<close>, on hashable arguments. The membership test
  \<^verbatim>\<open>avr_state in MEDIA_PLAYER_STATE_MAPPING\<close> hashes its argument; a list there raises
  TypeError, which the caller \<open>filter_state\<close> below models.
\<close>

definition state_from_avr :: "pyatom \<Rightarrow> States" where
  "state_from_avr avr_state =
     (case map_of MEDIA_PLAYER_STATE_MAPPING avr_state of
        Some s \<Rightarrow> s
      | None \<Rightarrow> St_UNKNOWN)"

subsection \<open>Construction\<close>

text \<open>
  \<^verbatim>\<open>DenonMediaPlayer.__init__\<close>. The entity identifier is built by
  \<^verbatim>\<open>config.create_entity_id\<close>, not among the source files; \<^verbatim>\<open>driver._entities_from_avr\<close>
  gives its form, \<^verbatim>\<open>media_player.<avr_id>\<close>.
\<close>

definition DenonMediaPlayer_init ::
  "simplecommand \<Rightarrow> AvrDevice \<Rightarrow> DenonDevice \<Rightarrow> DenonMediaPlayer" where
  "DenonMediaPlayer_init tables device rcv =
     \<lparr> receiver = Some rcv,
       player_id = ''media_player.'' @ receiver_id rcv,
       player_name = device_name device,
       features =
         [Feat_ON_OFF, Feat_TOGGLE, Feat_VOLUME, Feat_VOLUME_UP_DOWN, Feat_MUTE_TOGGLE,
          Feat_MUTE, Feat_UNMUTE, Feat_PLAY_PAUSE, Feat_NEXT, Feat_PREVIOUS,
          Feat_MEDIA_TITLE, Feat_MEDIA_ARTIST, Feat_MEDIA_ALBUM, Feat_MEDIA_IMAGE_URL,
          Feat_MEDIA_TYPE, Feat_SELECT_SOURCE, Feat_DPAD, Feat_MENU, Feat_CONTEXT_MENU,
          Feat_INFO]
         @ (if support_sound_mode device then [Feat_SELECT_SOUND_MODE] else [])
         @ (if is_denon device then [Feat_STOP] else []),
       attributes =
         (if support_sound_mode device
          then [Attr_STATE \<mapsto> Atom (PyState St_UNAVAILABLE),
                Attr_VOLUME \<mapsto> Atom (PyInt 0),
                Attr_MUTED \<mapsto> Atom (PyBool False),
                Attr_MEDIA_IMAGE_URL \<mapsto> Atom (PyStr ''''),
                Attr_MEDIA_TITLE \<mapsto> Atom (PyStr ''''),
                Attr_MEDIA_ARTIST \<mapsto> Atom (PyStr ''''),
                Attr_MEDIA_ALBUM \<mapsto> Atom (PyStr ''''),
                Attr_SOURCE \<mapsto> Atom (PyStr ''''),
                Attr_SOURCE_LIST \<mapsto> PyList [],
                Attr_SOUND_MODE \<mapsto> Atom (PyStr ''''),
                Attr_SOUND_MODE_LIST \<mapsto> PyList []]
          else [Attr_STATE \<mapsto> Atom (PyState St_UNAVAILABLE),
                Attr_VOLUME \<mapsto> Atom (PyInt 0),
                Attr_MUTED \<mapsto> Atom (PyBool False),
                Attr_MEDIA_IMAGE_URL \<mapsto> Atom (PyStr ''''),
                Attr_MEDIA_TITLE \<mapsto> Atom (PyStr ''''),
                Attr_MEDIA_ARTIST \<mapsto> Atom (PyStr ''''),
                Attr_MEDIA_ALBUM \<mapsto> Atom (PyStr ''''),
                Attr_SOURCE \<mapsto> Atom (PyStr ''''),
                Attr_SOURCE_LIST \<mapsto> PyList []]),
       simple_commands =
         (if is_denon device
          then (if use_telnet device then ALL_COMMANDS_TELNET_DENON tables
                else ALL_COMMANDS_DENON tables)
          else (if use_telnet device then ALL_COMMANDS_TELNET tables
                else ALL_COMMANDS tables)) \<rparr>"

subsection \<open>Command dispatch\<close>

text \<open>
  An operation awaited on the receiver: it is appended to the receiver's trace and its
  status code is the result of \<^verbatim>\<open>command\<close>.
\<close>

definition invoke ::
  "DenonMediaPlayer \<Rightarrow> DenonDevice \<Rightarrow> avr_call \<Rightarrow> error + (StatusCodes \<times> DenonMediaPlayer)" where
  "invoke self rcv c =
     Inr (result_of rcv c, self\<lparr>receiver := Some (rcv\<lparr>calls := calls rcv @ [c]\<rparr>)\<rparr>)"

text \<open>
  \<^verbatim>\<open>params.get(key)\<close>: \<^verbatim>\<open>params\<close> may be \<^verbatim>\<open>None\<close>, which has no \<^verbatim>\<open>get\<close>; a
  missing key reads as \<^verbatim>\<open>None\<close>.
\<close>

definition params_get :: "(string \<rightharpoonup> pyval) option \<Rightarrow> string \<Rightarrow> error + pyval" where
  "params_get params key =
     (case params of
        None \<Rightarrow> Inl AttributeError
      | Some p \<Rightarrow> Inr (case p key of None \<Rightarrow> Atom PyNone | Some v \<Rightarrow> v))"

text \<open>
  \<^verbatim>\<open>DenonMediaPlayer.command\<close>. The result is the exception raised, or the status code
  together with the entity after the call.
\<close>

definition command ::
  "simplecommand \<Rightarrow> DenonMediaPlayer \<Rightarrow> Commands \<Rightarrow> (string \<rightharpoonup> pyval) option
     \<Rightarrow> error + (StatusCodes \<times> DenonMediaPlayer)" where
  "command tables self cmd_id params =
     (case receiver self of
        None \<Rightarrow> Inr (SERVICE_UNAVAILABLE, self)
      | Some rcv \<Rightarrow>
         (case cmd_id of
            Cmd_PLAY_PAUSE \<Rightarrow> invoke self rcv Call_play_pause
          | Cmd_STOP \<Rightarrow> invoke self rcv Call_stop
          | Cmd_NEXT \<Rightarrow> invoke self rcv Call_next
          | Cmd_PREVIOUS \<Rightarrow> invoke self rcv Call_previous
          | Cmd_VOLUME \<Rightarrow>
             (case params_get params ''volume'' of
                Inl e \<Rightarrow> Inl e
              | Inr v \<Rightarrow> invoke self rcv (Call_set_volume_level v))
          | Cmd_VOLUME_UP \<Rightarrow> invoke self rcv Call_volume_up
          | Cmd_VOLUME_DOWN \<Rightarrow> invoke self rcv Call_volume_down
          | Cmd_MUTE_TOGGLE \<Rightarrow>
             (case attributes self Attr_MUTED of
                None \<Rightarrow> Inl KeyError
              | Some muted \<Rightarrow> invoke self rcv (Call_mute (\<not> py_truthy muted)))
          | Cmd_MUTE \<Rightarrow> invoke self rcv (Call_mute True)
          | Cmd_UNMUTE \<Rightarrow> invoke self rcv (Call_mute False)
          | Cmd_ON \<Rightarrow> invoke self rcv Call_power_on
          | Cmd_OFF \<Rightarrow> invoke self rcv Call_power_off
          | Cmd_TOGGLE \<Rightarrow> invoke self rcv Call_power_toggle
          | Cmd_SELECT_SOURCE \<Rightarrow>
             (case params_get params ''source'' of
                Inl e \<Rightarrow> Inl e
              | Inr v \<Rightarrow> invoke self rcv (Call_select_source v))
          | Cmd_SELECT_SOUND_MODE \<Rightarrow>
             (case params_get params ''mode'' of
                Inl e \<Rightarrow> Inl e
              | Inr v \<Rightarrow> invoke self rcv (Call_select_sound_mode v))
          | Cmd_CURSOR_UP \<Rightarrow> invoke self rcv Call_cursor_up
          | Cmd_CURSOR_DOWN \<Rightarrow> invoke self rcv Call_cursor_down
          | Cmd_CURSOR_LEFT \<Rightarrow> invoke self rcv Call_cursor_left
          | Cmd_CURSOR_RIGHT \<Rightarrow> invoke self rcv Call_cursor_right
          | Cmd_CURSOR_ENTER \<Rightarrow> invoke self rcv Call_cursor_enter
          | Cmd_BACK \<Rightarrow> invoke self rcv Call_back
          | Cmd_MENU \<Rightarrow> invoke self rcv Call_setup
          | Cmd_CONTEXT_MENU \<Rightarrow> invoke self rcv Call_options
          | Cmd_INFO \<Rightarrow> invoke self rcv Call_info
          | Cmd_other cmd \<Rightarrow>
             (if cmd \<in> set (ALL_COMMANDS_TELNET_DENON tables)
              then invoke self rcv (Call_send_simple_command cmd)
              else Inr (NOT_IMPLEMENTED, self))))"

subsection \<open>Attribute filtering\<close>

text \<open>
  \<^verbatim>\<open>_key_update_helper\<close>: a \<^verbatim>\<open>None\<close> value is skipped; otherwise the key is written
  when the entity has no value for it or has a different one.
\<close>

definition key_update_helper ::
  "DenonMediaPlayer \<Rightarrow> Attributes \<Rightarrow> pyval \<Rightarrow> (Attributes \<rightharpoonup> pyval) \<Rightarrow> (Attributes \<rightharpoonup> pyval)" where
  "key_update_helper self key v attrs =
     (if v = Atom PyNone then attrs
      else (case attributes self key of
              Some old \<Rightarrow> (if \<not> py_eq old v then attrs(key \<mapsto> v) else attrs)
            | None \<Rightarrow> attrs(key \<mapsto> v)))"

text \<open>
  Lines 195 to 197: the state of the update is translated by \<^verbatim>\<open>state_from_avr\<close>
  before it is compared. A list as state makes the dictionary membership test of
  \<^verbatim>\<open>state_from_avr\<close> raise TypeError.
\<close>

definition filter_state ::
  "DenonMediaPlayer \<Rightarrow> (Attributes \<rightharpoonup> pyval) \<Rightarrow> (Attributes \<rightharpoonup> pyval)
     \<Rightarrow> error + (Attributes \<rightharpoonup> pyval)" where
  "filter_state self update attrs =
     (case update Attr_STATE of
        None \<Rightarrow> Inr attrs
      | Some (PyList xs) \<Rightarrow> Inl TypeError
      | Some (Atom a) \<Rightarrow>
          Inr (key_update_helper self Attr_STATE (Atom (PyState (state_from_avr a))) attrs))"

text \<open>Lines 199 to 209: the loop over the scalar attributes, in the order of the source.\<close>

definition scalar_attrs :: "Attributes list" where
  "scalar_attrs =
     [Attr_MEDIA_ARTIST, Attr_MEDIA_ALBUM, Attr_MEDIA_IMAGE_URL, Attr_MEDIA_TITLE,
      Attr_MUTED, Attr_SOURCE, Attr_VOLUME]"

definition filter_key ::
  "DenonMediaPlayer \<Rightarrow> (Attributes \<rightharpoonup> pyval) \<Rightarrow> Attributes \<Rightarrow> (Attributes \<rightharpoonup> pyval)
     \<Rightarrow> (Attributes \<rightharpoonup> pyval)" where
  "filter_key self update attr attrs =
     (case update attr of
        None \<Rightarrow> attrs
      | Some v \<Rightarrow> key_update_helper self attr v attrs)"

definition filter_scalars ::
  "DenonMediaPlayer \<Rightarrow> (Attributes \<rightharpoonup> pyval) \<Rightarrow> (Attributes \<rightharpoonup> pyval)
     \<Rightarrow> (Attributes \<rightharpoonup> pyval)" where
  "filter_scalars self update attrs = fold (filter_key self update) scalar_attrs attrs"

text \<open>
  Lines 211 to 214 and 219 to 222: a list attribute is written only when the update
  has it, the entity has it, and the two differ.
\<close>

definition filter_list ::
  "DenonMediaPlayer \<Rightarrow> (Attributes \<rightharpoonup> pyval) \<Rightarrow> Attributes \<Rightarrow> (Attributes \<rightharpoonup> pyval)
     \<Rightarrow> (Attributes \<rightharpoonup> pyval)" where
  "filter_list self update attr attrs =
     (case update attr of
        None \<Rightarrow> attrs
      | Some v \<Rightarrow>
          (case attributes self attr of
             None \<Rightarrow> attrs
           | Some old \<Rightarrow> (if \<not> py_eq v old then attrs(attr \<mapsto> v) else attrs)))"

text \<open>Lines 216 to 222: the sound-mode attributes, behind the feature test.\<close>

definition filter_sound_mode ::
  "DenonMediaPlayer \<Rightarrow> (Attributes \<rightharpoonup> pyval) \<Rightarrow> (Attributes \<rightharpoonup> pyval)
     \<Rightarrow> (Attributes \<rightharpoonup> pyval)" where
  "filter_sound_mode self update attrs =
     (if Feat_SELECT_SOUND_MODE \<in> set (features self)
      then filter_list self update Attr_SOUND_MODE_LIST
             (filter_key self update Attr_SOUND_MODE attrs)
      else attrs)"

text \<open>Lines 224 to 231: a delta that sets the state to OFF clears the media fields.\<close>

definition clear_media_when_off :: "(Attributes \<rightharpoonup> pyval) \<Rightarrow> (Attributes \<rightharpoonup> pyval)" where
  "clear_media_when_off attrs =
     (case attrs Attr_STATE of
        None \<Rightarrow> attrs
      | Some st \<Rightarrow>
          (if py_eq st (Atom (PyState St_OFF))
           then attrs(Attr_MEDIA_IMAGE_URL \<mapsto> Atom (PyStr ''''),
                      Attr_MEDIA_ALBUM \<mapsto> Atom (PyStr ''''),
                      Attr_MEDIA_ARTIST \<mapsto> Atom (PyStr ''''),
                      Attr_MEDIA_TITLE \<mapsto> Atom (PyStr ''''),
                      Attr_MEDIA_TYPE \<mapsto> Atom (PyStr ''''),
                      Attr_SOURCE \<mapsto> Atom (PyStr ''''))
           else attrs))"

text \<open>\<^verbatim>\<open>DenonMediaPlayer.filter_changed_attributes\<close>: the exception raised, or the delta.\<close>

definition filter_changed_attributes ::
  "DenonMediaPlayer \<Rightarrow> (Attributes \<rightharpoonup> pyval) \<Rightarrow> error + (Attributes \<rightharpoonup> pyval)" where
  "filter_changed_attributes self update =
     (case filter_state self update Map.empty of
        Inl e \<Rightarrow> Inl e
      | Inr attrs \<Rightarrow>
          Inr (clear_media_when_off
                 (filter_sound_mode self update
                    (filter_list self update Attr_SOURCE_LIST
                       (filter_scalars self update attrs)))))"

section \<open>driver.py\<close>

subsection \<open>The poller's sleep\<close>

text \<open>
  \<^verbatim>\<open>receiver_status_poller\<close> loops forever; each cycle ends with
  \<^verbatim>\<open>asyncio.sleep(min(10.0, max(1.0, interval - elapsed_time)))\<close>. Times are real
  numbers here.
\<close>

definition poller_sleep :: "real \<Rightarrow> real \<Rightarrow> real" where
  "poller_sleep interval elapsed_time = min 10 (max 1 (interval - elapsed_time))"

subsection \<open>Unsubscribing entities\<close>

text \<open>
  Modelled from the spec: \<^verbatim>\<open>config.avr_from_entity_id\<close> is not among the source files.
  Entity identifiers are derived from the device identifier and the entity type
  (\<^verbatim>\<open>media_player.<deviceId>\<close>); the function gives back the part after the first dot,
  and \<^verbatim>\<open>None\<close> for an identifier without a dot.
\<close>

definition avr_from_entity_id :: "string \<Rightarrow> string option" where
  "avr_from_entity_id entity_id =
     (case dropWhile (\<lambda>c. c \<noteq> CHR ''.'') entity_id of
        [] \<Rightarrow> None
      | dot # avr_id \<Rightarrow> Some avr_id)"

definition disconnect :: "DenonDevice \<Rightarrow> DenonDevice" where
  "disconnect rcv = rcv\<lparr>calls := calls rcv @ [Call_disconnect]\<rparr>"

definition remove_all_listeners :: "DenonDevice \<Rightarrow> DenonDevice" where
  "remove_all_listeners rcv = rcv\<lparr>listeners := []\<rparr>"

text \<open>
  \<^verbatim>\<open>on_unsubscribe_entities\<close> over the global \<^verbatim>\<open>_configured_avrs\<close>, with
  \<^verbatim>\<open>avr_from_entity_id\<close> as the parameter \<open>afe\<close>. The membership test reads the key
  \<^verbatim>\<open>avr_id\<close>; the two lookups that follow read the key \<^verbatim>\<open>entity_id\<close>, and a
  dictionary lookup of a missing key raises KeyError.
\<close>

fun on_unsubscribe_entities ::
  "(string \<Rightarrow> string option) \<Rightarrow> string list \<Rightarrow> (string \<rightharpoonup> DenonDevice)
     \<Rightarrow> error + (string \<rightharpoonup> DenonDevice)" where
  "on_unsubscribe_entities afe [] configured_avrs = Inr configured_avrs"
| "on_unsubscribe_entities afe (entity_id # entity_ids) configured_avrs =
     (case afe entity_id of
        None \<Rightarrow> on_unsubscribe_entities afe entity_ids configured_avrs
      | Some avr_id \<Rightarrow>
          (if configured_avrs avr_id \<noteq> None
           then (case configured_avrs entity_id of
                   None \<Rightarrow> Inl KeyError
                 | Some rcv \<Rightarrow>
                     on_unsubscribe_entities afe entity_ids
                       (configured_avrs(entity_id \<mapsto> remove_all_listeners (disconnect rcv))))
           else on_unsubscribe_entities afe entity_ids configured_avrs))"

subsection \<open>Concrete inputs\<close>

definition demo_tables :: simplecommand where
  "demo_tables =
     \<lparr> ALL_COMMANDS = [''SHARED''],
       ALL_COMMANDS_DENON = [''SHARED'', ''DENON_ONLY''],
       ALL_COMMANDS_TELNET = [''SHARED'', ''TELNET_ONLY''],
       ALL_COMMANDS_TELNET_DENON = [''SHARED'', ''TELNET_ONLY'', ''DENON_ONLY''] \<rparr>"

definition demo_device :: AvrDevice where
  "demo_device =
     \<lparr> device_id = ''avr1'', device_name = ''Living room'', address = ''192.168.1.20'',
       support_sound_mode = False, is_denon = False, use_telnet = False \<rparr>"

definition demo_receiver :: DenonDevice where
  "demo_receiver =
     \<lparr> receiver_id = ''avr1'', result_of = (\<lambda>c. OK), calls = [],
       listeners = [Ev_CONNECTED, Ev_DISCONNECTED, Ev_ERROR, Ev_UPDATE, Ev_IP_ADDRESS_CHANGED] \<rparr>"

definition demo_player :: DenonMediaPlayer where
  "demo_player = DenonMediaPlayer_init demo_tables demo_device demo_receiver"

definition demo_off_delta :: "Attributes \<rightharpoonup> pyval" where
  "demo_off_delta =
     [Attr_STATE \<mapsto> Atom (PyState St_OFF),
      Attr_MEDIA_IMAGE_URL \<mapsto> Atom (PyStr ''''),
      Attr_MEDIA_ALBUM \<mapsto> Atom (PyStr ''''),
      Attr_MEDIA_ARTIST \<mapsto> Atom (PyStr ''''),
      Attr_MEDIA_TITLE \<mapsto> Atom (PyStr ''''),
      Attr_MEDIA_TYPE \<mapsto> Atom (PyStr ''''),
      Attr_SOURCE \<mapsto> Atom (PyStr '''')]"

definition demo_unmuted_absent :: DenonMediaPlayer where
  "demo_unmuted_absent = demo_player\<lparr>attributes := Map.empty\<rparr>"

definition demo_muted :: DenonMediaPlayer where
  "demo_muted = demo_player\<lparr>attributes := [Attr_MUTED \<mapsto> Atom (PyBool True)]\<rparr>"

definition demo_sound_update :: "Attributes \<rightharpoonup> pyval" where
  "demo_sound_update =
     [Attr_SOUND_MODE \<mapsto> Atom (PyStr ''STEREO''),
      Attr_SOUND_MODE_LIST \<mapsto> PyList [PyStr ''STEREO'', PyStr ''MOVIE'']]"

definition demo_sound_recorded :: "Attributes \<rightharpoonup> pyval" where
  "demo_sound_recorded =
     [Attr_SOUND_MODE \<mapsto> Atom (PyStr ''MOVIE''), Attr_SOUND_MODE_LIST \<mapsto> PyList []]"

definition demo_avrs :: "string \<rightharpoonup> DenonDevice" where
  "demo_avrs = [''avr1'' \<mapsto> demo_receiver]"

definition demo_none_update :: "Attributes \<rightharpoonup> pyval" where
  "demo_none_update = [Attr_STATE \<mapsto> Atom PyNone, Attr_VOLUME \<mapsto> Atom PyNone]"

definition demo_none_delta :: "Attributes \<rightharpoonup> pyval" where
  "demo_none_delta = [Attr_STATE \<mapsto> Atom (PyState St_UNKNOWN)]"

definition demo_volume_none :: "Attributes \<rightharpoonup> pyval" where
  "demo_volume_none = [Attr_VOLUME \<mapsto> Atom PyNone]"

definition demo_volume_update :: "Attributes \<rightharpoonup> pyval" where
  "demo_volume_update = [Attr_VOLUME \<mapsto> Atom (PyInt 30)]"

definition demo_player_str_off :: DenonMediaPlayer where
  "demo_player_str_off = demo_player\<lparr>attributes := [Attr_STATE \<mapsto> Atom (PyStr ''OFF'')]\<rparr>"

definition demo_player_str_unknown :: DenonMediaPlayer where
  "demo_player_str_unknown =
     demo_player\<lparr>attributes := [Attr_STATE \<mapsto> Atom (PyStr ''UNKNOWN'')]\<rparr>"

section \<open>Vocabulary of the properties\<close>

text \<open>
  The specification's "value different from the recorded value, or key absent from the
  recorded mapping", with Python's \<^verbatim>\<open>!=\<close> as the comparison.
\<close>

definition differs_from_recorded :: "DenonMediaPlayer \<Rightarrow> Attributes \<Rightarrow> pyval \<Rightarrow> bool" where
  "differs_from_recorded self key v =
     (case attributes self key of None \<Rightarrow> True | Some old \<Rightarrow> \<not> py_eq old v)"

text \<open>
  The specification's condition for a key to be in the delta: the update supplies the key,
  and its value differs from the recorded one or the key is not recorded.
\<close>

definition spec_delta_has :: "DenonMediaPlayer \<Rightarrow> (Attributes \<rightharpoonup> pyval) \<Rightarrow> Attributes \<Rightarrow> bool" where
  "spec_delta_has self update key =
     (case update key of
        None \<Rightarrow> False
      | Some v \<Rightarrow> differs_from_recorded self key v)"

text \<open>The update supplies the key with a value other than \<^verbatim>\<open>None\<close> that differs.\<close>

definition scalar_changed :: "DenonMediaPlayer \<Rightarrow> (Attributes \<rightharpoonup> pyval) \<Rightarrow> Attributes \<Rightarrow> bool" where
  "scalar_changed self update key =
     (case update key of
        None \<Rightarrow> False
      | Some v \<Rightarrow> v \<noteq> Atom PyNone \<and> differs_from_recorded self key v)"

text \<open>The update supplies the key, the entity records it, and the two values differ.\<close>

definition list_changed :: "DenonMediaPlayer \<Rightarrow> (Attributes \<rightharpoonup> pyval) \<Rightarrow> Attributes \<Rightarrow> bool" where
  "list_changed self update key =
     (case update key of
        None \<Rightarrow> False
      | Some v \<Rightarrow> (case attributes self key of None \<Rightarrow> False | Some old \<Rightarrow> \<not> py_eq v old))"

text \<open>The update supplies a state whose translation differs from the recorded state.\<close>

definition state_changed :: "DenonMediaPlayer \<Rightarrow> (Attributes \<rightharpoonup> pyval) \<Rightarrow> bool" where
  "state_changed self update =
     (case update Attr_STATE of
        Some (Atom a) \<Rightarrow>
          differs_from_recorded self Attr_STATE (Atom (PyState (state_from_avr a)))
      | _ \<Rightarrow> False)"

text \<open>The media fields that the state-OFF rule clears.\<close>

definition cleared_attrs :: "Attributes list" where
  "cleared_attrs =
     [Attr_MEDIA_IMAGE_URL, Attr_MEDIA_ALBUM, Attr_MEDIA_ARTIST, Attr_MEDIA_TITLE,
      Attr_MEDIA_TYPE, Attr_SOURCE]"

text \<open>A value clamped to the range from \<open>lo\<close> to \<open>hi\<close>, in the words of the specification.\<close>

definition clamped_to :: "real \<Rightarrow> real \<Rightarrow> real \<Rightarrow> real" where
  "clamped_to lo hi x = (if x < lo then lo else if hi < x then hi else x)"

section \<open>Properties of the attribute filter\<close>

subsection \<open>Each stage, key by key\<close>

lemma key_update_helper_apply:
  "key_update_helper self key v attrs k =
     (if k = key \<and> v \<noteq> Atom PyNone \<and> differs_from_recorded self key v then Some v else attrs k)"
  by (simp add: key_update_helper_def differs_from_recorded_def split: option.splits)

lemma filter_key_apply:
  "filter_key self u a attrs k = (if k = a \<and> scalar_changed self u a then u a else attrs k)"
  by (simp add: filter_key_def scalar_changed_def key_update_helper_apply split: option.splits)

lemma filter_scalars_apply:
  "filter_scalars self u attrs k =
     (if k \<in> set scalar_attrs \<and> scalar_changed self u k then u k else attrs k)"
  by (auto simp add: filter_scalars_def scalar_attrs_def filter_key_apply)

lemma filter_list_apply:
  "filter_list self u a attrs k = (if k = a \<and> list_changed self u a then u a else attrs k)"
  by (simp add: filter_list_def list_changed_def split: option.splits)

lemma filter_sound_mode_apply:
  "filter_sound_mode self u attrs k =
     (if Feat_SELECT_SOUND_MODE \<in> set (features self) \<and> k = Attr_SOUND_MODE_LIST
           \<and> list_changed self u k then u k
      else if Feat_SELECT_SOUND_MODE \<in> set (features self) \<and> k = Attr_SOUND_MODE
           \<and> scalar_changed self u k then u k
      else attrs k)"
  by (auto simp add: filter_sound_mode_def filter_list_apply filter_key_apply)

text \<open>
  The state of a delta is written by \<open>filter_state\<close> only, so it is a member of
  \<open>States\<close>, never a plain string; on such a mapping the test of the state-OFF rule is
  an equality of members.
\<close>

lemma clear_media_when_off_apply:
  assumes "attrs Attr_STATE = None \<or> (\<exists>s. attrs Attr_STATE = Some (Atom (PyState s)))"
  shows "clear_media_when_off attrs k =
     (if attrs Attr_STATE = Some (Atom (PyState St_OFF)) \<and> k \<in> set cleared_attrs
      then Some (Atom (PyStr '''')) else attrs k)"
  using assms
  by (auto simp add: clear_media_when_off_def cleared_attrs_def split: option.splits)

lemma filter_state_cases:
  "filter_state self u attrs =
     (case u Attr_STATE of
        None \<Rightarrow> Inr attrs
      | Some (PyList xs) \<Rightarrow> Inl TypeError
      | Some (Atom a) \<Rightarrow>
          Inr (\<lambda>k. if k = Attr_STATE
                      \<and> differs_from_recorded self Attr_STATE (Atom (PyState (state_from_avr a)))
                   then Some (Atom (PyState (state_from_avr a))) else attrs k))"
  by (auto simp add: filter_state_def key_update_helper_apply split: option.splits pyval.splits)


lemma filter_changed_attributes_raises:
  "filter_changed_attributes self u = Inl e \<longleftrightarrow> e = TypeError \<and> (\<exists>xs. u Attr_STATE = Some (PyList xs))"
  by (auto simp add: filter_changed_attributes_def filter_state_def split: option.splits pyval.splits)

lemma filter_changed_attributes_unfold:
  assumes "filter_changed_attributes self u = Inr d"
  obtains a1 where "filter_state self u Map.empty = Inr a1"
    and "d = clear_media_when_off
               (filter_sound_mode self u
                  (filter_list self u Attr_SOURCE_LIST (filter_scalars self u a1)))"
  using assms by (auto simp add: filter_changed_attributes_def split: sum.splits)

lemma filter_state_other:
  assumes "filter_state self u attrs = Inr a1" and "k \<noteq> Attr_STATE"
  shows "a1 k = attrs k"
  using assms
  by (auto simp add: filter_state_def key_update_helper_apply split: option.splits pyval.splits)

lemma filter_state_state:
  assumes "filter_state self u attrs = Inr a1"
  shows "a1 Attr_STATE =
     (case u Attr_STATE of
        Some (Atom a) \<Rightarrow>
          (if differs_from_recorded self Attr_STATE (Atom (PyState (state_from_avr a)))
           then Some (Atom (PyState (state_from_avr a))) else attrs Attr_STATE)
      | _ \<Rightarrow> attrs Attr_STATE)"
  using assms
  by (auto simp add: filter_state_def key_update_helper_apply split: option.splits pyval.splits)

lemma filter_state_typed:
  assumes "filter_state self u Map.empty = Inr a1"
  shows "a1 Attr_STATE = None \<or> (\<exists>s. a1 Attr_STATE = Some (Atom (PyState s)))"
  using filter_state_state [OF assms]
  by (auto split: option.splits pyval.splits if_splits)

lemma filter_changed_attributes_state:
  assumes "filter_changed_attributes self u = Inr d"
  shows "d Attr_STATE =
     (case u Attr_STATE of
        Some (Atom a) \<Rightarrow>
          (if differs_from_recorded self Attr_STATE (Atom (PyState (state_from_avr a)))
           then Some (Atom (PyState (state_from_avr a))) else None)
      | _ \<Rightarrow> None)"
proof -
  from assms obtain a1 where a1: "filter_state self u Map.empty = Inr a1"
    and d: "d = clear_media_when_off
               (filter_sound_mode self u
                  (filter_list self u Attr_SOURCE_LIST (filter_scalars self u a1)))"
    by (rule filter_changed_attributes_unfold)
  have pre: "filter_sound_mode self u
        (filter_list self u Attr_SOURCE_LIST (filter_scalars self u a1)) Attr_STATE
      = a1 Attr_STATE"
    by (simp add: filter_sound_mode_apply filter_list_apply
        filter_scalars_apply scalar_attrs_def)
  have typed: "filter_sound_mode self u
        (filter_list self u Attr_SOURCE_LIST (filter_scalars self u a1)) Attr_STATE = None
      \<or> (\<exists>s. filter_sound_mode self u
        (filter_list self u Attr_SOURCE_LIST (filter_scalars self u a1)) Attr_STATE
          = Some (Atom (PyState s)))"
    unfolding pre by (rule filter_state_typed [OF a1])
  note cm = clear_media_when_off_apply
    [of "filter_sound_mode self u
           (filter_list self u Attr_SOURCE_LIST (filter_scalars self u a1))", OF typed]
  have "d Attr_STATE = a1 Attr_STATE"
    by (simp add: d cm pre cleared_attrs_def)
  then show ?thesis using filter_state_state [OF a1] by simp
qed

lemma filter_changed_attributes_apply:
  assumes "filter_changed_attributes self u = Inr d"
  shows "d k =
     (if d Attr_STATE = Some (Atom (PyState St_OFF)) \<and> k \<in> set cleared_attrs
      then Some (Atom (PyStr ''''))
      else if k = Attr_STATE then d Attr_STATE
      else if k \<in> set scalar_attrs then (if scalar_changed self u k then u k else None)
      else if k = Attr_SOURCE_LIST then (if list_changed self u k then u k else None)
      else if k = Attr_SOUND_MODE
        then (if Feat_SELECT_SOUND_MODE \<in> set (features self) \<and> scalar_changed self u k
              then u k else None)
      else if k = Attr_SOUND_MODE_LIST
        then (if Feat_SELECT_SOUND_MODE \<in> set (features self) \<and> list_changed self u k
              then u k else None)
      else None)"
proof -
  from assms obtain a1 where a1: "filter_state self u Map.empty = Inr a1"
    and d: "d = clear_media_when_off
               (filter_sound_mode self u
                  (filter_list self u Attr_SOURCE_LIST (filter_scalars self u a1)))"
    by (rule filter_changed_attributes_unfold)
  have other: "a1 j = None" if "j \<noteq> Attr_STATE" for j
    using filter_state_other [OF a1 that] by simp
  have pre: "filter_sound_mode self u
        (filter_list self u Attr_SOURCE_LIST (filter_scalars self u a1)) Attr_STATE
      = a1 Attr_STATE"
    by (simp add: filter_sound_mode_apply filter_list_apply
        filter_scalars_apply scalar_attrs_def)
  have typed: "filter_sound_mode self u
        (filter_list self u Attr_SOURCE_LIST (filter_scalars self u a1)) Attr_STATE = None
      \<or> (\<exists>s. filter_sound_mode self u
        (filter_list self u Attr_SOURCE_LIST (filter_scalars self u a1)) Attr_STATE
          = Some (Atom (PyState s)))"
    unfolding pre by (rule filter_state_typed [OF a1])
  note cm = clear_media_when_off_apply
    [of "filter_sound_mode self u
           (filter_list self u Attr_SOURCE_LIST (filter_scalars self u a1))", OF typed]
  have st: "d Attr_STATE = a1 Attr_STATE"
    by (simp add: d cm pre cleared_attrs_def)
  show ?thesis
  proof (cases "k = Attr_STATE")
    case True
    then show ?thesis by (simp add: cleared_attrs_def)
  next
    case False
    have "d k = (if a1 Attr_STATE = Some (Atom (PyState St_OFF)) \<and> k \<in> set cleared_attrs
                 then Some (Atom (PyStr ''''))
                 else filter_sound_mode self u
                   (filter_list self u Attr_SOURCE_LIST (filter_scalars self u a1)) k)"
      unfolding d cm pre ..
    then show ?thesis
      using False other [OF False]
      by (cases k)
        (simp_all add: st filter_sound_mode_apply filter_list_apply filter_scalars_apply
          scalar_attrs_def cleared_attrs_def)
  qed
qed

subsection \<open>The demonstration entity\<close>

lemma demo_player_attributes:
  "attributes demo_player =
     [Attr_STATE \<mapsto> Atom (PyState St_UNAVAILABLE),
      Attr_VOLUME \<mapsto> Atom (PyInt 0),
      Attr_MUTED \<mapsto> Atom (PyBool False),
      Attr_MEDIA_IMAGE_URL \<mapsto> Atom (PyStr ''''),
      Attr_MEDIA_TITLE \<mapsto> Atom (PyStr ''''),
      Attr_MEDIA_ARTIST \<mapsto> Atom (PyStr ''''),
      Attr_MEDIA_ALBUM \<mapsto> Atom (PyStr ''''),
      Attr_SOURCE \<mapsto> Atom (PyStr ''''),
      Attr_SOURCE_LIST \<mapsto> PyList []]"
  by (simp add: demo_player_def DenonMediaPlayer_init_def demo_device_def)

lemma demo_player_features:
  "Feat_SELECT_SOUND_MODE \<notin> set (features demo_player)"
  by (simp add: demo_player_def DenonMediaPlayer_init_def demo_device_def)

lemma state_from_avr_simps:
  "state_from_avr (PyAvrState Avr_ON) = St_ON"
  "state_from_avr (PyAvrState Avr_OFF) = St_OFF"
  "state_from_avr (PyAvrState Avr_PAUSED) = St_PAUSED"
  "state_from_avr (PyAvrState Avr_PLAYING) = St_PLAYING"
  "state_from_avr (PyAvrState Avr_UNAVAILABLE) = St_UNAVAILABLE"
  "state_from_avr (PyAvrState Avr_UNKNOWN) = St_UNKNOWN"
  by (simp_all add: state_from_avr_def MEDIA_PLAYER_STATE_MAPPING_def)

lemma demo_player_receiver: "receiver demo_player = Some demo_receiver"
  by (simp add: demo_player_def DenonMediaPlayer_init_def)

lemma demo_player_simple_commands: "simple_commands demo_player = [''SHARED'']"
  by (simp add: demo_player_def DenonMediaPlayer_init_def demo_device_def demo_tables_def)

lemmas filter_defs =
  filter_changed_attributes_def filter_state_def key_update_helper_def
  filter_scalars_def scalar_attrs_def filter_key_def filter_list_def
  filter_sound_mode_def clear_media_when_off_def

lemma demo_off_eval:
  "filter_changed_attributes demo_player [Attr_STATE \<mapsto> Atom (PyAvrState Avr_OFF)]
     = Inr demo_off_delta"
  by (simp add: filter_defs demo_player_features demo_player_attributes
      state_from_avr_simps demo_off_delta_def)

subsection \<open>The state-OFF rule\<close>

text \<open>
  Claim C2. Whenever the delta computed by \<open>filter_changed_attributes\<close> contains the state
  attribute with value OFF, it also contains the empty string for the media image URL,
  the media album, the media artist, the media title, the media type and the source,
  whatever the update and the recorded attributes say about these six keys.
\<close>

theorem off_clears_media:
  assumes "filter_changed_attributes self update = Inr delta"
    and "delta Attr_STATE = Some (Atom (PyState St_OFF))"
  shows "delta Attr_MEDIA_IMAGE_URL = Some (Atom (PyStr ''''))
       \<and> delta Attr_MEDIA_ALBUM = Some (Atom (PyStr ''''))
       \<and> delta Attr_MEDIA_ARTIST = Some (Atom (PyStr ''''))
       \<and> delta Attr_MEDIA_TITLE = Some (Atom (PyStr ''''))
       \<and> delta Attr_MEDIA_TYPE = Some (Atom (PyStr ''''))
       \<and> delta Attr_SOURCE = Some (Atom (PyStr ''''))"
  using assms(2)
  by (simp add: filter_changed_attributes_apply [OF assms(1), of Attr_MEDIA_IMAGE_URL]
      filter_changed_attributes_apply [OF assms(1), of Attr_MEDIA_ALBUM]
      filter_changed_attributes_apply [OF assms(1), of Attr_MEDIA_ARTIST]
      filter_changed_attributes_apply [OF assms(1), of Attr_MEDIA_TITLE]
      filter_changed_attributes_apply [OF assms(1), of Attr_MEDIA_TYPE]
      filter_changed_attributes_apply [OF assms(1), of Attr_SOURCE]
      cleared_attrs_def)

theorem off_clears_media_witness:
  "filter_changed_attributes demo_player [Attr_STATE \<mapsto> Atom (PyAvrState Avr_OFF)]
     = Inr demo_off_delta
   \<and> demo_off_delta Attr_STATE = Some (Atom (PyState St_OFF))
   \<and> demo_off_delta Attr_MEDIA_IMAGE_URL = Some (Atom (PyStr ''''))
   \<and> demo_off_delta Attr_MEDIA_ALBUM = Some (Atom (PyStr ''''))
   \<and> demo_off_delta Attr_MEDIA_ARTIST = Some (Atom (PyStr ''''))
   \<and> demo_off_delta Attr_MEDIA_TITLE = Some (Atom (PyStr ''''))
   \<and> demo_off_delta Attr_MEDIA_TYPE = Some (Atom (PyStr ''''))
   \<and> demo_off_delta Attr_SOURCE = Some (Atom (PyStr ''''))"
proof -
  have st: "demo_off_delta Attr_STATE = Some (Atom (PyState St_OFF))"
    by (simp add: demo_off_delta_def)
  from off_clears_media [OF demo_off_eval st] demo_off_eval st show ?thesis
    by simp
qed

subsection \<open>Sound mode\<close>

text \<open>
  The constructor gives the feature SELECT\_SOUND\_MODE only to an entity of a device
  configured with sound-mode support.
\<close>

lemma init_features_no_sound_mode:
  assumes "\<not> support_sound_mode device"
  shows "Feat_SELECT_SOUND_MODE \<notin> set (features (DenonMediaPlayer_init tables device rcv))"
  using assms by (simp add: DenonMediaPlayer_init_def)

text \<open>
  Claim C6. For every entity constructed from a device configuration without
  sound-mode support, whatever attributes it has recorded since, the delta returned by
  \<open>filter_changed_attributes\<close> contains neither the sound-mode key nor the
  sound-mode-list key, even when the update supplies them.
\<close>

theorem no_sound_mode_keys:
  assumes "\<not> support_sound_mode device"
    and "filter_changed_attributes
           ((DenonMediaPlayer_init tables device rcv)\<lparr>attributes := recorded\<rparr>) update
         = Inr delta"
  shows "delta Attr_SOUND_MODE = None \<and> delta Attr_SOUND_MODE_LIST = None"
proof -
  have f: "Feat_SELECT_SOUND_MODE
      \<notin> set (features ((DenonMediaPlayer_init tables device rcv)\<lparr>attributes := recorded\<rparr>))"
    using init_features_no_sound_mode [OF assms(1)] by simp
  show ?thesis
    using f
    by (simp add: filter_changed_attributes_apply [OF assms(2), of Attr_SOUND_MODE]
        filter_changed_attributes_apply [OF assms(2), of Attr_SOUND_MODE_LIST]
        cleared_attrs_def scalar_attrs_def)
qed

theorem no_sound_mode_keys_witness:
  "\<not> support_sound_mode demo_device
   \<and> filter_changed_attributes
       ((DenonMediaPlayer_init demo_tables demo_device demo_receiver)
          \<lparr>attributes := demo_sound_recorded\<rparr>) demo_sound_update = Inr Map.empty
   \<and> scalar_changed
       ((DenonMediaPlayer_init demo_tables demo_device demo_receiver)
          \<lparr>attributes := demo_sound_recorded\<rparr>) demo_sound_update Attr_SOUND_MODE"
proof -
  have h: "\<not> support_sound_mode demo_device" by (simp add: demo_device_def)
  have f: "Feat_SELECT_SOUND_MODE \<notin> set (features
       ((DenonMediaPlayer_init demo_tables demo_device demo_receiver)
          \<lparr>attributes := demo_sound_recorded\<rparr>))"
    using init_features_no_sound_mode [OF h] by simp
  have ev: "filter_changed_attributes
       ((DenonMediaPlayer_init demo_tables demo_device demo_receiver)
          \<lparr>attributes := demo_sound_recorded\<rparr>) demo_sound_update = Inr Map.empty"
    using f by (simp add: filter_defs demo_sound_update_def demo_sound_recorded_def)
  have sc: "scalar_changed
       ((DenonMediaPlayer_init demo_tables demo_device demo_receiver)
          \<lparr>attributes := demo_sound_recorded\<rparr>) demo_sound_update Attr_SOUND_MODE"
    by (simp add: scalar_changed_def differs_from_recorded_def demo_sound_update_def
        demo_sound_recorded_def)
  from no_sound_mode_keys [OF h ev] h ev sc show ?thesis by simp
qed

subsection \<open>Values that are None\<close>

lemma scalar_changed_supplied: "scalar_changed self u k \<Longrightarrow> u k \<noteq> None"
  by (auto simp add: scalar_changed_def split: option.splits)

lemma list_changed_supplied: "list_changed self u k \<Longrightarrow> u k \<noteq> None"
  by (auto simp add: list_changed_def split: option.splits)

lemma scalar_changed_None: "u k = Some (Atom PyNone) \<Longrightarrow> \<not> scalar_changed self u k"
  by (simp add: scalar_changed_def)

lemma state_from_avr_None: "state_from_avr PyNone = St_UNKNOWN"
  by (simp add: state_from_avr_def MEDIA_PLAYER_STATE_MAPPING_def)

text \<open>
  Claim C10, as stated, fails for the state key: the state of the update goes through
  \<open>state_from_avr\<close> before \<open>key_update_helper\<close> sees it, and \<open>state_from_avr\<close> turns
  \<^verbatim>\<open>None\<close> into UNKNOWN. For the entity as constructed (state UNAVAILABLE) an update
  whose state is \<^verbatim>\<open>None\<close> gives a delta that holds the state key.
\<close>

theorem none_state_counterexample:
  "attributes demo_player Attr_STATE = Some (Atom (PyState St_UNAVAILABLE))
   \<and> filter_changed_attributes demo_player [Attr_STATE \<mapsto> Atom PyNone]
       = Inr [Attr_STATE \<mapsto> Atom (PyState St_UNKNOWN)]"
  by (simp add: filter_defs demo_player_features demo_player_attributes
      state_from_avr_None)

text \<open>
  Claim C10, amended. For every update and every key among media artist, media album,
  media image URL, media title, muted, source and volume: if the update supplies the key
  with value \<^verbatim>\<open>None\<close>, the delta omits the key, whatever the entity has recorded for
  it, except that a media field cleared by the state-OFF rule is the empty string. For
  the state key a value \<^verbatim>\<open>None\<close> is not skipped: it is translated to UNKNOWN, and
  the delta holds state UNKNOWN exactly when the entity records no state or a state
  that Python's comparison tells apart from UNKNOWN (the recorded string
  \<^verbatim>\<open>"UNKNOWN"\<close> is the same as the state UNKNOWN).
\<close>

theorem none_values_skipped:
  assumes "filter_changed_attributes self update = Inr delta"
    and "update key = Some (Atom PyNone)"
    and "key = Attr_STATE \<or> key \<in> set scalar_attrs"
  shows "delta key =
     (if key = Attr_STATE
      then (if differs_from_recorded self Attr_STATE (Atom (PyState St_UNKNOWN))
            then Some (Atom (PyState St_UNKNOWN)) else None)
      else if delta Attr_STATE = Some (Atom (PyState St_OFF)) \<and> key \<in> set cleared_attrs
      then Some (Atom (PyStr ''''))
      else None)"
proof (cases "key = Attr_STATE")
  case True
  with assms(2) have "update Attr_STATE = Some (Atom PyNone)" by simp
  then show ?thesis
    using True filter_changed_attributes_state [OF assms(1)]
    by (simp add: state_from_avr_None)
next
  case False
  with assms(3) have mem: "key \<in> set scalar_attrs" by simp
  have nsc: "\<not> scalar_changed self update key"
    using assms(2) by (rule scalar_changed_None)
  have "delta key =
     (if delta Attr_STATE = Some (Atom (PyState St_OFF)) \<and> key \<in> set cleared_attrs
      then Some (Atom (PyStr ''''))
      else if key = Attr_STATE then delta Attr_STATE
      else if key \<in> set scalar_attrs
        then (if scalar_changed self update key then update key else None)
      else None)"
    using filter_changed_attributes_apply [OF assms(1), of key] mem by presburger
  then show ?thesis using False mem nsc by presburger
qed

lemma demo_none_eval:
  "filter_changed_attributes demo_player demo_none_update = Inr demo_none_delta"
  by (simp add: filter_defs demo_player_features demo_player_attributes
      state_from_avr_None demo_none_update_def demo_none_delta_def)

theorem none_values_skipped_witness:
  "filter_changed_attributes demo_player demo_none_update = Inr demo_none_delta
   \<and> demo_none_update Attr_VOLUME = Some (Atom PyNone)
   \<and> demo_none_update Attr_STATE = Some (Atom PyNone)
   \<and> attributes demo_player Attr_VOLUME = Some (Atom (PyInt 0))
   \<and> demo_none_delta Attr_VOLUME = None
   \<and> demo_none_delta Attr_STATE = Some (Atom (PyState St_UNKNOWN))"
proof -
  have v: "demo_none_update Attr_VOLUME = Some (Atom PyNone)"
    by (simp add: demo_none_update_def)
  have s: "demo_none_update Attr_STATE = Some (Atom PyNone)"
    by (simp add: demo_none_update_def)
  have mv: "Attr_VOLUME = Attr_STATE \<or> Attr_VOLUME \<in> set scalar_attrs"
    by (simp add: scalar_attrs_def)
  have ms: "Attr_STATE = Attr_STATE \<or> Attr_STATE \<in> set scalar_attrs"
    by simp
  have d: "differs_from_recorded demo_player Attr_STATE (Atom (PyState St_UNKNOWN))"
    by (simp add: differs_from_recorded_def demo_player_attributes)
  have c: "Attr_VOLUME \<notin> set cleared_attrs"
    by (simp add: cleared_attrs_def)
  from none_values_skipped [OF demo_none_eval v mv]
    none_values_skipped [OF demo_none_eval s ms] demo_none_eval v s d c
  show ?thesis by (simp add: demo_player_attributes)
qed

subsection \<open>The keys of the delta\<close>

text \<open>
  Claim C1, as stated, fails: the entity as constructed records volume 0, the update
  supplies the volume key with the different value \<^verbatim>\<open>None\<close>, and the delta is empty,
  because \<open>key_update_helper\<close> skips a value that is \<^verbatim>\<open>None\<close>.
\<close>

theorem delta_iff_differs_counterexample:
  "filter_changed_attributes demo_player demo_volume_none = Inr Map.empty
   \<and> spec_delta_has demo_player demo_volume_none Attr_VOLUME"
  by (simp add: filter_defs demo_player_features demo_player_attributes
      spec_delta_has_def differs_from_recorded_def demo_volume_none_def)

lemma delta_state_present:
  assumes "filter_changed_attributes self update = Inr delta"
  shows "(delta Attr_STATE \<noteq> None) = state_changed self update"
  unfolding filter_changed_attributes_state [OF assms] state_changed_def
  by (simp split: option.splits pyval.splits)

text \<open>
  Claim C1, amended. For every recorded attribute mapping and every update for which
  \<open>filter_changed_attributes\<close> returns a delta, and outside the media fields added by the
  state-OFF rule, the delta contains a key if and only if
  \<^item> the key is the state, the update supplies a state, and the entity records no state
    or one different from the translation of the supplied state by \<open>state_from_avr\<close>
    (different under Python's comparison, for which a recorded string is the same as the
    state of that value); or
  \<^item> the key is one of media artist, media album, media image URL, media title, muted,
    source and volume, the update supplies it with a value other than \<^verbatim>\<open>None\<close>, and
    the entity records no value for it or a different one; or
  \<^item> the key is the source list, the update supplies it, the entity records it, and the
    two values differ; or
  \<^item> the entity has the feature SELECT\_SOUND\_MODE and the key is the sound mode (under
    the condition of the scalar keys) or the sound-mode list (under the condition of the
    source list).
  No other key is in the delta.
\<close>

theorem delta_keys:
  assumes "filter_changed_attributes self update = Inr delta"
    and "\<not> (delta Attr_STATE = Some (Atom (PyState St_OFF)) \<and> key \<in> set cleared_attrs)"
  shows "(delta key \<noteq> None) =
     (if key = Attr_STATE then state_changed self update
      else if key \<in> set scalar_attrs then scalar_changed self update key
      else if key = Attr_SOURCE_LIST then list_changed self update key
      else if key = Attr_SOUND_MODE
        then Feat_SELECT_SOUND_MODE \<in> set (features self) \<and> scalar_changed self update key
      else if key = Attr_SOUND_MODE_LIST
        then Feat_SELECT_SOUND_MODE \<in> set (features self) \<and> list_changed self update key
      else False)"
proof -
  note eq = filter_changed_attributes_apply [OF assms(1), of key]
  note sc = scalar_changed_supplied [of self update key]
  note lc = list_changed_supplied [of self update key]
  consider (state) "key = Attr_STATE"
    | (scalar) "key \<noteq> Attr_STATE" "key \<in> set scalar_attrs"
    | (source_list) "key = Attr_SOURCE_LIST"
    | (sound_mode) "key = Attr_SOUND_MODE"
    | (sound_mode_list) "key = Attr_SOUND_MODE_LIST"
    | (other) "key \<noteq> Attr_STATE" "key \<notin> set scalar_attrs" "key \<noteq> Attr_SOURCE_LIST"
        "key \<noteq> Attr_SOUND_MODE" "key \<noteq> Attr_SOUND_MODE_LIST"
    by blast
  then show ?thesis
  proof cases
    case state
    then show ?thesis using delta_state_present [OF assms(1)] by simp
  next
    case scalar
    then show ?thesis using eq assms(2) sc by auto
  next
    case source_list
    then show ?thesis using eq assms(2) lc
      by (auto simp add: scalar_attrs_def cleared_attrs_def)
  next
    case sound_mode
    then show ?thesis using eq assms(2) sc
      by (auto simp add: scalar_attrs_def cleared_attrs_def)
  next
    case sound_mode_list
    then show ?thesis using eq assms(2) lc
      by (auto simp add: scalar_attrs_def cleared_attrs_def)
  next
    case other
    then show ?thesis using eq assms(2) by auto
  qed
qed

lemma demo_volume_eval:
  "filter_changed_attributes demo_player demo_volume_update = Inr demo_volume_update"
  by (simp add: filter_defs demo_player_features demo_player_attributes
      demo_volume_update_def)

theorem delta_keys_witness:
  "filter_changed_attributes demo_player demo_volume_update = Inr demo_volume_update
   \<and> demo_volume_update Attr_STATE = None
   \<and> demo_volume_update Attr_VOLUME = Some (Atom (PyInt 30))
   \<and> scalar_changed demo_player demo_volume_update Attr_VOLUME"
proof -
  have st: "demo_volume_update Attr_STATE = None"
    by (simp add: demo_volume_update_def)
  have v: "demo_volume_update Attr_VOLUME = Some (Atom (PyInt 30))"
    by (simp add: demo_volume_update_def)
  have nc: "\<not> (demo_volume_update Attr_STATE = Some (Atom (PyState St_OFF))
     \<and> Attr_VOLUME \<in> set cleared_attrs)"
    using st by simp
  have m: "Attr_VOLUME \<in> set scalar_attrs"
    by (simp add: scalar_attrs_def)
  from delta_keys [OF demo_volume_eval nc] m v
  have "scalar_changed demo_player demo_volume_update Attr_VOLUME" by simp
  with demo_volume_eval st v show ?thesis by simp
qed

subsection \<open>A state recorded as a plain string\<close>

text \<open>
  The comparison with the recorded value is Python's: an entity that records the state
  as the string \<^verbatim>\<open>"OFF"\<close> sees no change when the receiver reports OFF, and one that
  records \<^verbatim>\<open>"UNKNOWN"\<close> sees no change when the update's state is \<^verbatim>\<open>None\<close>.
\<close>

lemma recorded_string_off_unchanged:
  "filter_changed_attributes demo_player_str_off [Attr_STATE \<mapsto> Atom (PyAvrState Avr_OFF)]
     = Inr Map.empty"
  by (simp add: filter_defs demo_player_str_off_def demo_player_features
      state_from_avr_simps)

lemma recorded_string_unknown_unchanged:
  "filter_changed_attributes demo_player_str_unknown [Attr_STATE \<mapsto> Atom PyNone]
     = Inr Map.empty"
  by (simp add: filter_defs demo_player_str_unknown_def demo_player_features
      state_from_avr_None)

lemma recorded_string_off_not_state_changed:
  "\<not> state_changed demo_player_str_off [Attr_STATE \<mapsto> Atom (PyAvrState Avr_OFF)]"
  by (simp add: state_changed_def differs_from_recorded_def demo_player_str_off_def
      state_from_avr_simps)

section \<open>Properties of the state mapping\<close>

text \<open>
  Claim C5. The mapping used by \<open>state_from_avr\<close> is total: each of the receiver states
  ON, OFF, PAUSED, PLAYING, UNAVAILABLE and UNKNOWN maps to the entity state of the same
  name (so only UNKNOWN maps to UNKNOWN), and every value that is not a receiver state
  maps to UNKNOWN.
\<close>

theorem state_from_avr_total:
  "state_from_avr (PyAvrState Avr_ON) = St_ON
   \<and> state_from_avr (PyAvrState Avr_OFF) = St_OFF
   \<and> state_from_avr (PyAvrState Avr_PAUSED) = St_PAUSED
   \<and> state_from_avr (PyAvrState Avr_PLAYING) = St_PLAYING
   \<and> state_from_avr (PyAvrState Avr_UNAVAILABLE) = St_UNAVAILABLE
   \<and> state_from_avr (PyAvrState Avr_UNKNOWN) = St_UNKNOWN
   \<and> (\<forall>v. (\<forall>s. v \<noteq> PyAvrState s) \<longrightarrow> state_from_avr v = St_UNKNOWN)"
proof -
  have "state_from_avr v = St_UNKNOWN" if "\<forall>s. v \<noteq> PyAvrState s" for v
    using that by (cases v) (simp_all add: state_from_avr_def MEDIA_PLAYER_STATE_MAPPING_def)
  then show ?thesis by (simp add: state_from_avr_simps)
qed

theorem state_from_avr_total_witness:
  "state_from_avr PyNone = St_UNKNOWN \<and> state_from_avr (PyStr ''standby'') = St_UNKNOWN
   \<and> state_from_avr (PyAvrState Avr_PLAYING) = St_PLAYING"
proof -
  have a: "\<forall>s. PyNone \<noteq> PyAvrState s" by simp
  have b: "\<forall>s. PyStr ''standby'' \<noteq> PyAvrState s" by simp
  from state_from_avr_total a b show ?thesis by blast
qed

section \<open>Properties of the command dispatch\<close>

text \<open>
  Claim C8. For every command identifier and all parameters, an entity without a bound
  receiver answers SERVICE\_UNAVAILABLE; the entity is returned as it was, and there is
  no receiver on which an operation could have been invoked.
\<close>

theorem no_receiver_unavailable:
  assumes "receiver self = None"
  shows "command tables self cmd_id params = Inr (SERVICE_UNAVAILABLE, self)"
  using assms by (simp add: command_def)

theorem no_receiver_unavailable_witness:
  "receiver (demo_player\<lparr>receiver := None\<rparr>) = None
   \<and> command demo_tables (demo_player\<lparr>receiver := None\<rparr>) Cmd_VOLUME_UP None
       = Inr (SERVICE_UNAVAILABLE, demo_player\<lparr>receiver := None\<rparr>)"
proof -
  have h: "receiver (demo_player\<lparr>receiver := None\<rparr>) = None" by simp
  from no_receiver_unavailable [OF h] h show ?thesis by simp
qed

text \<open>
  Claim C3, as stated, fails: the dispatch tests a command that is not structured
  against the table \<open>ALL_COMMANDS_TELNET_DENON\<close> for every device, not against the
  entity's own \<open>simple_commands\<close>. With tables in which the Denon telnet table holds
  a command that the generic table lacks, an entity of a generic device without telnet
  forwards that command to the receiver.
\<close>

theorem unknown_command_counterexample:
  "''DENON_ONLY'' \<notin> set (simple_commands demo_player)
   \<and> command demo_tables demo_player (Cmd_other ''DENON_ONLY'') None
       = Inr (OK, demo_player\<lparr>receiver :=
                Some (demo_receiver\<lparr>calls := [Call_send_simple_command ''DENON_ONLY'']\<rparr>)\<rparr>)"
  by (simp add: command_def demo_player_receiver demo_player_simple_commands invoke_def
      demo_tables_def demo_receiver_def)

text \<open>
  Claim C3, amended. For an entity with a bound receiver, every command identifier that
  is neither a structured command nor a member of \<open>ALL_COMMANDS_TELNET_DENON\<close> (the
  table consulted for every device flavor) is answered with NOT\_IMPLEMENTED, and no
  operation is invoked on the receiver: the entity, with its receiver's trace, is
  unchanged.
\<close>

theorem unknown_command_not_implemented:
  assumes "receiver self = Some rcv"
    and "cmd \<notin> set (ALL_COMMANDS_TELNET_DENON tables)"
  shows "command tables self (Cmd_other cmd) params = Inr (NOT_IMPLEMENTED, self)"
  using assms by (simp add: command_def)

theorem unknown_command_not_implemented_witness:
  "receiver demo_player = Some demo_receiver
   \<and> ''FOO'' \<notin> set (ALL_COMMANDS_TELNET_DENON demo_tables)
   \<and> command demo_tables demo_player (Cmd_other ''FOO'') None
       = Inr (NOT_IMPLEMENTED, demo_player)"
proof -
  have h: "''FOO'' \<notin> set (ALL_COMMANDS_TELNET_DENON demo_tables)"
    by (simp add: demo_tables_def)
  from unknown_command_not_implemented [OF demo_player_receiver h] demo_player_receiver h
  show ?thesis by simp
qed

text \<open>
  Claim C7, as stated, fails where the muted attribute is absent: the dispatch reads
  \<^verbatim>\<open>self.attributes[Attributes.MUTED]\<close>, which raises KeyError for a missing key, and
  no mute operation is invoked.
\<close>

theorem mute_toggle_absent_counterexample:
  "attributes demo_unmuted_absent Attr_MUTED = None
   \<and> receiver demo_unmuted_absent = Some demo_receiver
   \<and> command demo_tables demo_unmuted_absent Cmd_MUTE_TOGGLE None = Inl KeyError"
  by (simp add: demo_unmuted_absent_def command_def demo_player_receiver)

text \<open>
  Claim C7, amended. Dispatching MUTE\_TOGGLE on an entity with a bound receiver calls
  the receiver's mute operation with the negation of the recorded muted attribute:
  \<open>mute(False)\<close> when the recorded value is true and \<open>mute(True)\<close> when it is false. When
  the muted attribute is absent the lookup raises KeyError.
\<close>

theorem mute_toggle_negates:
  assumes "receiver self = Some rcv"
  shows "(attributes self Attr_MUTED = Some (Atom (PyBool True)) \<longrightarrow>
            command tables self Cmd_MUTE_TOGGLE params
              = Inr (result_of rcv (Call_mute False),
                     self\<lparr>receiver := Some (rcv\<lparr>calls := calls rcv @ [Call_mute False]\<rparr>)\<rparr>))
       \<and> (attributes self Attr_MUTED = Some (Atom (PyBool False)) \<longrightarrow>
            command tables self Cmd_MUTE_TOGGLE params
              = Inr (result_of rcv (Call_mute True),
                     self\<lparr>receiver := Some (rcv\<lparr>calls := calls rcv @ [Call_mute True]\<rparr>)\<rparr>))
       \<and> (attributes self Attr_MUTED = None \<longrightarrow>
            command tables self Cmd_MUTE_TOGGLE params = Inl KeyError)"
  using assms by (simp add: command_def invoke_def)

theorem mute_toggle_negates_witness:
  "command demo_tables demo_muted Cmd_MUTE_TOGGLE None
     = Inr (OK, demo_muted\<lparr>receiver := Some (demo_receiver\<lparr>calls := [Call_mute False]\<rparr>)\<rparr>)
   \<and> command demo_tables demo_player Cmd_MUTE_TOGGLE None
     = Inr (OK, demo_player\<lparr>receiver := Some (demo_receiver\<lparr>calls := [Call_mute True]\<rparr>)\<rparr>)
   \<and> command demo_tables demo_unmuted_absent Cmd_MUTE_TOGGLE None = Inl KeyError"
proof -
  have r1: "receiver demo_muted = Some demo_receiver"
    by (simp add: demo_muted_def demo_player_receiver)
  have m1: "attributes demo_muted Attr_MUTED = Some (Atom (PyBool True))"
    by (simp add: demo_muted_def)
  have m2: "attributes demo_player Attr_MUTED = Some (Atom (PyBool False))"
    by (simp add: demo_player_attributes)
  have r3: "receiver demo_unmuted_absent = Some demo_receiver"
    by (simp add: demo_unmuted_absent_def demo_player_receiver)
  have m3: "attributes demo_unmuted_absent Attr_MUTED = None"
    by (simp add: demo_unmuted_absent_def)
  from mute_toggle_negates [OF r1, of demo_tables None] m1
    mute_toggle_negates [OF demo_player_receiver, of demo_tables None] m2
    mute_toggle_negates [OF r3, of demo_tables None] m3
  show ?thesis by (simp add: demo_receiver_def)
qed

section \<open>Properties of the poller\<close>

text \<open>
  Claim C9, as stated, fails for an interval above ten seconds: with an interval of 20
  seconds and no work time the poller sleeps 10 seconds, where the interval minus the
  work time clamped to the range from 1 second to the interval is 20 seconds.
\<close>

theorem poller_sleep_counterexample:
  "poller_sleep 20 0 = 10 \<and> clamped_to 1 20 (20 - 0) = 20"
  by (simp add: poller_sleep_def clamped_to_def)

text \<open>
  Claim C9, amended. For every poll interval and every work time of a cycle, the
  poller's sleep is the interval minus the elapsed work time, clamped to the range from
  1 second to 10 seconds: the upper bound is the constant 10.0, not the interval.
\<close>

theorem poller_sleep_clamped:
  "poller_sleep interval elapsed_time = clamped_to 1 10 (interval - elapsed_time)"
  by (simp add: poller_sleep_def clamped_to_def min_def max_def)

text \<open>
  The two ranges agree when the interval lies between 1 and 10 seconds and the work time
  is not negative.
\<close>

lemma poller_sleep_within_interval:
  assumes "1 \<le> interval" and "interval \<le> 10" and "0 \<le> elapsed_time"
  shows "poller_sleep interval elapsed_time = clamped_to 1 interval (interval - elapsed_time)"
  using assms by (simp add: poller_sleep_def clamped_to_def min_def max_def)

section \<open>Properties of unsubscribing\<close>

lemma avr_from_entity_id_demo: "avr_from_entity_id ''media_player.avr1'' = Some ''avr1''"
  by (simp add: avr_from_entity_id_def)

text \<open>
  Claim C4 says that unsubscribing the entity of a configured receiver disconnects the
  receiver and removes the driver's listeners from it, without an error. The code tests
  \<^verbatim>\<open>avr_id in _configured_avrs\<close> and then reads \<^verbatim>\<open>_configured_avrs[entity_id]\<close>: for
  the receiver \<^verbatim>\<open>avr1\<close> and its entity \<^verbatim>\<open>media_player.avr1\<close> the lookup raises KeyError,
  and the receiver is neither disconnected nor stripped of its listeners.
\<close>

theorem unsubscribe_raises_KeyError:
  "demo_avrs ''avr1'' = Some demo_receiver
   \<and> avr_from_entity_id ''media_player.avr1'' = Some ''avr1''
   \<and> on_unsubscribe_entities avr_from_entity_id [''media_player.avr1''] demo_avrs
       = Inl KeyError"
  by (simp add: avr_from_entity_id_demo demo_avrs_def)

text \<open>
  Whatever \<^verbatim>\<open>avr_from_entity_id\<close> computes: when the entity identifier is not itself a
  key of the receiver map, unsubscribing it raises KeyError or leaves every receiver as
  it was.
\<close>

lemma unsubscribe_never_disconnects:
  assumes "configured_avrs entity_id = None"
  shows "on_unsubscribe_entities afe [entity_id] configured_avrs = Inl KeyError
       \<or> on_unsubscribe_entities afe [entity_id] configured_avrs = Inr configured_avrs"
  using assms by (simp split: option.splits)

end
